theory Spec2Isabelle
  imports Main "HOL-Library.Sublist"
begin

section \<open>The child side of a cross-window component\<close>

text \<open>
  A shallow embedding of the class \<open>ChildComponent\<close>: the code that runs inside the
  frame or popup window of a component. The instance (\<open>this\<close>) is the record
  \<open>child\<close>; the window it runs in, together with everything the code reaches through
  imported helpers (the two parent references, the decoded window name, the transport),
  is the record \<open>world\<close>. Every effect the code has on the outside is appended to
  \<open>trace\<close> in program order, and an exception is the \<open>Inl\<close> of a result.
\<close>

subsection \<open>Values\<close>

type_synonym win = nat

datatype context_type = IFRAME | POPUP

datatype post_message = INIT | PROPS | CLOSE | RESIZE | ERROR

datatype js_value = JNum int | JStr string | JBool bool | JNull

type_synonym props_bag = "(string \<times> js_value) list"

text \<open>
  An error object: whether it is an instance of \<open>IntegrationError\<close>, its \<open>name\<close>,
  its \<open>message\<close> and its \<open>stack\<close> (\<open>None\<close> where the engine attached none).
\<close>

record js_error =
  integration :: bool
  err_name :: string
  message :: string
  stack :: "string option"

datatype handler = OnEnter | OnClose | OnProps | OnError

datatype payload = NoData | ErrorData string

datatype watch = ParentWindowWatch | ParentComponentWindowWatch

text \<open>
  The observable effects: a line of the component's log (name and detail), a line on
  the console, a listener registered for a window, a post-message handed to the
  transport, a call of one of the instance's lifecycle handlers (with its argument and
  the props the handler finds on the instance), and the closing of the local window.
\<close>

datatype event =
    Log string "string option"
  | ConsoleError "string option"
  | Listen "win option"
  | Send "win option" post_message payload
  | Invoke handler "js_error option" props_bag
  | WindowClose

text \<open>
  \<open>activeXComponent\<close> is \<open>window.__activeXComponent__\<close> (the identity of the
  instance stored there); \<open>parentWindow\<close> and \<open>parentComponentWindow\<close> are what
  \<open>getParentWindow()\<close> and \<open>getParentComponentWindow()\<close> return (\<open>None\<close> for a
  falsy result); \<open>parsedWindowName\<close> is the outcome of
  \<open>parseWindowName(window.name)\<close>: the error it throws or the tag it decodes;
  \<open>errorStack m\<close> is the stack the engine attaches to \<open>new Error(m)\<close>;
  \<open>watchers\<close> are the close watches registered through \<open>onCloseWindow\<close>.
\<close>

record world =
  activeXComponent :: "nat option"
  parentWindow :: "win option"
  parentComponentWindow :: "win option"
  parsedWindowName :: "js_error + string"
  errorStack :: "string \<Rightarrow> string option"
  watchers :: "watch list"
  trace :: "event list"

record child =
  ident :: nat
  tag :: string
  standalone :: bool
  props :: props_bag
  ctx :: "context_type option"

datatype init_reply = Reply context_type props_bag | Rejection js_error | NoReply

datatype init_result = ReturnedUndefined | ResolvedPromise | InitPromise

subsection \<open>Helpers of the language and of the library\<close>

definition new_Error :: "world \<Rightarrow> string \<Rightarrow> js_error" where
  "new_Error w m = \<lparr>integration = False, err_name = ''Error'', message = m, stack = errorStack w m\<rparr>"

text \<open>\<open>Error.prototype.toString\<close> of the language standard.\<close>

definition toString :: "js_error \<Rightarrow> string" where
  "toString e =
     (if err_name e = [] then message e
      else if message e = [] then err_name e
      else err_name e @ '': '' @ message e)"

definition emit :: "event \<Rightarrow> world \<Rightarrow> world" where
  "emit e w = w\<lparr>trace := trace w @ [e]\<rparr>"

definition log :: "string \<Rightarrow> string option \<Rightarrow> world \<Rightarrow> world" where
  "log n d w = emit (Log n d) w"

text \<open>
  Modelled from the spec: the values of the \<open>POST_MESSAGE\<close> constants are outside the
  source; a message name is written as the protocol vocabulary writes it.
\<close>

fun message_name :: "post_message \<Rightarrow> string" where
  "message_name INIT = ''INIT''"
| "message_name PROPS = ''PROPS''"
| "message_name CLOSE = ''CLOSE''"
| "message_name RESIZE = ''RESIZE''"
| "message_name ERROR = ''ERROR''"

text \<open>
  Modelled from the spec: \<open>BaseComponent.tryCatch\<close> is outside the source. The
  handlers stored on the instance are guarded calls of the author's callbacks; a call
  of one is recorded, with the props the instance holds at that moment, and returns to
  its caller. At which of these calls the author's callback runs is told by
  \<open>callbacks_run\<close> below.
\<close>

definition invoke :: "handler \<Rightarrow> js_error option \<Rightarrow> child \<Rightarrow> world \<Rightarrow> world" where
  "invoke h a c w = emit (Invoke h a (props c)) w"

text \<open>
  Modelled from the spec: \<open>extend\<close> of the library is outside the source. Assigning
  \<open>obj[k] = v\<close> overwrites the value of a key the bag has, in place, and appends a
  key it has not; \<open>extend obj src\<close> assigns every entry of \<open>src\<close> in order.
\<close>

primrec assign :: "string \<Rightarrow> js_value \<Rightarrow> props_bag \<Rightarrow> props_bag" where
  "assign k v [] = [(k, v)]"
| "assign k v (p # ps) = (if fst p = k then (k, v) # ps else p # assign k v ps)"

primrec extend :: "props_bag \<Rightarrow> props_bag \<Rightarrow> props_bag" where
  "extend obj [] = obj"
| "extend obj (p # src) = extend (assign (fst p) (snd p) obj) src"

subsection \<open>The constructor\<close>

text \<open>
  The constructor writes a log line and seeds the instance: its props are the
  normalised default props of the options, its standalone flag is the one of the
  options, and it has no context yet. \<open>normalizeProps\<close> is outside the source and is
  a parameter here; the identity of the instance is given by the caller.
\<close>

definition construct ::
  "(props_bag \<Rightarrow> props_bag) \<Rightarrow> nat \<Rightarrow> string \<Rightarrow> props_bag \<Rightarrow> bool \<Rightarrow> world \<Rightarrow> child \<times> world" where
  "construct normalizeProps i t defaultProps sa w =
     (\<lparr>ident = i, tag = t, standalone = sa, props = normalizeProps defaultProps, ctx = None\<rparr>,
      log ''construct_child'' None w)"

subsection \<open>Messages to the parents\<close>

definition sendToParent :: "post_message \<Rightarrow> payload \<Rightarrow> world \<Rightarrow> world" where
  "sendToParent n d w =
     (let w1 = log (''send_to_parent_'' @ message_name n) None w
      in emit (Send (parentWindow w1) n d) w1)"

definition sendToParentComponent :: "post_message \<Rightarrow> payload \<Rightarrow> world \<Rightarrow> world" where
  "sendToParentComponent n d w =
     (let w1 = log (''send_to_parent_component_'' @ message_name n) None w
      in emit (Send (parentComponentWindow w1) n d) w1)"

subsection \<open>Close\<close>

definition close :: "js_error option \<Rightarrow> child \<Rightarrow> world \<Rightarrow> world" where
  "close err c w =
     (let w1 = log ''close_child'' None w;
          w2 = invoke OnClose err c w1
      in sendToParent CLOSE NoData w2)"

subsection \<open>Watching the parents\<close>

definition parent_closed_message :: "string \<Rightarrow> string" where
  "parent_closed_message t = ''['' @ t @ ''] parent window was closed''"

definition parent_component_closed_message :: "string \<Rightarrow> string" where
  "parent_component_closed_message t = ''['' @ t @ ''] parent component window was closed''"

text \<open>The callback registered for the parent window.\<close>

definition parent_window_closed :: "child \<Rightarrow> world \<Rightarrow> world" where
  "parent_window_closed c w =
     (let w1 = log ''parent_window_closed'' None w;
          w2 = invoke OnClose (Some (new_Error w1 (parent_closed_message (tag c)))) c w1
      in if ctx c = Some POPUP then emit WindowClose w2 else w2)"

text \<open>The callback registered for the parent component window.\<close>

definition parent_component_window_closed :: "child \<Rightarrow> world \<Rightarrow> world" where
  "parent_component_window_closed c w =
     (let w1 = log ''parent_component_window_closed'' None w
      in close (Some (new_Error w1 (parent_component_closed_message (tag c)))) c w1)"

definition watchForClose :: "child \<Rightarrow> world \<Rightarrow> world" where
  "watchForClose c w =
     (let w1 = w\<lparr>watchers := watchers w @ [ParentWindowWatch]\<rparr>
      in if parentComponentWindow w1 \<noteq> None \<and> parentComponentWindow w1 \<noteq> parentWindow w1
         then w1\<lparr>watchers := watchers w1 @ [ParentComponentWindowWatch]\<rparr>
         else w1)"

text \<open>
  Modelled from the spec: \<open>onCloseWindow\<close> of the library is outside the source. A
  watch calls its callback once, when the window it watches is found closed, and is
  then spent; a window nobody watches closes unnoticed.
\<close>

fun callback :: "watch \<Rightarrow> child \<Rightarrow> world \<Rightarrow> world" where
  "callback ParentWindowWatch c w = parent_window_closed c w"
| "callback ParentComponentWindowWatch c w = parent_component_window_closed c w"

definition detected_closed :: "watch \<Rightarrow> child \<Rightarrow> world \<Rightarrow> world" where
  "detected_closed t c w =
     (if t \<in> set (watchers w)
      then callback t c (w\<lparr>watchers := removeAll t (watchers w)\<rparr>)
      else w)"

subsection \<open>Resolving the windows\<close>

definition duplicate_attach_message :: "string \<Rightarrow> string" where
  "duplicate_attach_message t = ''['' @ t @ ''] Can not attach multiple components to the same window''"

definition no_parent_message :: "string \<Rightarrow> string" where
  "no_parent_message t = ''['' @ t @ ''] Can not find parent window''"

definition no_parent_component_message :: "string \<Rightarrow> string" where
  "no_parent_component_message t = ''['' @ t @ ''] Can not find parent component window''"

definition tag_mismatch_message :: "string \<Rightarrow> string \<Rightarrow> string" where
  "tag_mismatch_message t found = ''['' @ t @ ''] Parent is '' @ found @ '' - can not attach '' @ t"

definition setWindows :: "child \<Rightarrow> world \<Rightarrow> (js_error + unit) \<times> world" where
  "setWindows c w =
     (if activeXComponent w \<noteq> None
      then (Inl (new_Error w (duplicate_attach_message (tag c))), w)
      else
        let w1 = w\<lparr>activeXComponent := Some (ident c)\<rparr>
        in if parentWindow w1 = None
           then (Inl (new_Error w1 (no_parent_message (tag c))), w1)
           else if parentComponentWindow w1 = None
           then (Inl (new_Error w1 (no_parent_component_message (tag c))), w1)
           else
             (case parsedWindowName w1 of
                Inl e \<Rightarrow> (Inl e, w1)
              | Inr found \<Rightarrow>
                  let w2 = log ''child_win_props'' (Some found) w1
                  in if found \<noteq> tag c
                     then (Inl (new_Error w2 (tag_mismatch_message (tag c) found)), w2)
                     else (Inr (), watchForClose c w2)))"

subsection \<open>Init\<close>

text \<open>
  The reply to the INIT request is a parameter: \<open>Reply\<close> runs the \<open>then\<close> branch,
  \<open>Rejection\<close> the \<open>catch\<close> branch, \<open>NoReply\<close> leaves the promise pending.
\<close>

definition init_settled :: "init_reply \<Rightarrow> child \<Rightarrow> world \<Rightarrow> child \<times> world" where
  "init_settled r c w =
     (case r of
        Reply cx ps \<Rightarrow>
          let c1 = c\<lparr>ctx := Some cx\<rparr>;
              c2 = c1\<lparr>props := extend (props c1) ps\<rparr>;
              w1 = invoke OnEnter None c2 w
          in (c2, invoke OnProps None c2 w1)
      | Rejection e \<Rightarrow> (c, invoke OnError (Some e) c w)
      | NoReply \<Rightarrow> (c, w))"

definition init :: "init_reply \<Rightarrow> child \<Rightarrow> world \<Rightarrow> (js_error + init_result) \<times> child \<times> world" where
  "init r c w =
     (let w0 = log ''init_child'' None w
      in case setWindows c w0 of
           (Inl err, w1) \<Rightarrow>
             if standalone c
             then (Inr ReturnedUndefined, c, log ''child_standalone'' None w1)
             else (Inl err, c, w1)
         | (Inr u, w1) \<Rightarrow>
             if standalone c \<and> parentComponentWindow w1 = None
             then (Inr ResolvedPromise, c, w1)
             else
               let w2 = emit (Listen (parentComponentWindow w1)) w1;
                   w3 = (if parentWindow w2 \<noteq> parentComponentWindow w2
                         then emit (Listen (parentWindow w2)) w2 else w2);
                   w4 = sendToParentComponent INIT NoData w3;
                   (c', w5) = init_settled r c w4
               in (Inr InitPromise, c', w5))"

subsection \<open>Listeners\<close>

definition listener_PROPS :: "props_bag \<Rightarrow> child \<Rightarrow> world \<Rightarrow> child \<times> world" where
  "listener_PROPS ps c w =
     (let c1 = c\<lparr>props := extend (props c) ps\<rparr>
      in (c1, invoke OnProps None c1 w))"

definition listener_CLOSE :: "win \<Rightarrow> child \<Rightarrow> world \<Rightarrow> world" where
  "listener_CLOSE source c w =
     (if Some source = parentWindow w
      then invoke OnClose None c w
      else sendToParent CLOSE NoData w)"

subsection \<open>Error\<close>

definition lifecycle_error_message :: "string \<Rightarrow> string" where
  "lifecycle_error_message t = ''['' @ t @ ''] Child lifecycle method threw an error''"

text \<open>
  A stack is truthy when it is there and is not the empty string.
  \<open>stack_or_string\<close> is \<open>err.stack || err.toString()\<close>, and \<open>render\<close> is
  \<open>err.stack ? `${err.message}\n${err.stack}` : err.toString()\<close>.
\<close>

definition stack_or_string :: "js_error \<Rightarrow> string" where
  "stack_or_string e =
     (case stack e of
        None \<Rightarrow> toString e
      | Some st \<Rightarrow> if st = [] then toString e else st)"

definition render :: "js_error \<Rightarrow> string" where
  "render e =
     (case stack e of
        None \<Rightarrow> toString e
      | Some st \<Rightarrow> if st = [] then toString e else message e @ [CHR 0x0A] @ st)"

definition error :: "js_error \<Rightarrow> child \<Rightarrow> world \<Rightarrow> world" where
  "error err c w =
     (let w1 = log ''error'' (Some (stack_or_string err)) w;
          (err', w2) =
            (if \<not> integration err
             then (new_Error w1 (lifecycle_error_message (tag c)), emit (ConsoleError (stack err)) w1)
             else (err, w1))
      in sendToParentComponent ERROR (ErrorData (render err')) w2)"

subsection \<open>Sequences of close requests\<close>

text \<open>
  The ways a close reaches the instance: a call of \<open>close\<close>, a CLOSE message from a
  source window, and the parent window or the parent component window being found
  closed by its watch. \<open>requests\<close> runs a sequence of them on the same instance, in
  order; a window found closed goes through the watch, so it reaches the instance only
  if the watch is registered and has not fired yet.
\<close>

datatype close_request =
    ExplicitClose "js_error option"
  | CloseMessage win
  | ParentWindowGone
  | ParentComponentWindowGone

fun request :: "close_request \<Rightarrow> child \<Rightarrow> world \<Rightarrow> world" where
  "request (ExplicitClose e) c w = close e c w"
| "request (CloseMessage source) c w = listener_CLOSE source c w"
| "request ParentWindowGone c w = detected_closed ParentWindowWatch c w"
| "request ParentComponentWindowGone c w = detected_closed ParentComponentWindowWatch c w"






fun is_send :: "event \<Rightarrow> bool" where
  "is_send (Send t n d) = True"
| "is_send e = False"

fun is_listen :: "event \<Rightarrow> bool" where
  "is_listen (Listen t) = True"
| "is_listen e = False"


subsection \<open>Concrete windows and instances\<close>

definition no_stack :: "string \<Rightarrow> string option" where
  "no_stack m = None"

definition engine_stack :: "string \<Rightarrow> string option" where
  "engine_stack m = Some (''Error: '' @ m @ [CHR 0x0A] @ ''    at child.js:337'')"

text \<open>A window created for component \<open>foo\<close>, whose parent owns the component.\<close>

definition foo_window :: world where
  "foo_window = \<lparr>activeXComponent = None, parentWindow = Some 1, parentComponentWindow = Some 1,
     parsedWindowName = Inr ''foo'', errorStack = no_stack, watchers = [], trace = []\<rparr>"

text \<open>A window created for component \<open>bar\<close>.\<close>

definition bar_window :: world where
  "bar_window = foo_window\<lparr>parsedWindowName := Inr ''bar''\<rparr>"

text \<open>The same windows with an instance already stored in them.\<close>

definition occupied_window :: world where
  "occupied_window = foo_window\<lparr>activeXComponent := Some 1\<rparr>"

definition occupied_bar_window :: world where
  "occupied_bar_window = bar_window\<lparr>activeXComponent := Some 1\<rparr>"

text \<open>A window opened directly: no parent, no parent component, no decodable name.\<close>

definition orphan_window :: world where
  "orphan_window = \<lparr>activeXComponent = None, parentWindow = None, parentComponentWindow = None,
     parsedWindowName = Inl \<lparr>integration = False, err_name = ''Error'', message = ''bad window name'', stack = None\<rparr>,
     errorStack = no_stack, watchers = [], trace = []\<rparr>"

text \<open>A window rendered through a sibling: the parent component is not the parent.\<close>

definition delegated_window :: world where
  "delegated_window = foo_window\<lparr>parentComponentWindow := Some 2\<rparr>"

text \<open>The same window in an engine that attaches a stack to every new error.\<close>

definition v8_window :: world where
  "v8_window = foo_window\<lparr>errorStack := engine_stack\<rparr>"

text \<open>The two windows after instance 2, of component \<open>foo\<close>, has resolved them.\<close>

definition watched_window :: world where
  "watched_window = foo_window\<lparr>activeXComponent := Some 2, watchers := [ParentWindowWatch],
     trace := [Log ''child_win_props'' (Some ''foo'')]\<rparr>"

definition watched_delegated_window :: world where
  "watched_delegated_window = delegated_window\<lparr>activeXComponent := Some 2,
     watchers := [ParentWindowWatch, ParentComponentWindowWatch],
     trace := [Log ''child_win_props'' (Some ''foo'')]\<rparr>"

definition xy_props :: props_bag where
  "xy_props = [(''x'', JNum 1), (''y'', JNum 1)]"

definition foo_child :: child where
  "foo_child = \<lparr>ident = 2, tag = ''foo'', standalone = False, props = xy_props, ctx = None\<rparr>"

definition standalone_child :: child where
  "standalone_child = foo_child\<lparr>standalone := True\<rparr>"

definition popup_child :: child where
  "popup_child = foo_child\<lparr>ctx := Some POPUP\<rparr>"

definition iframe_child :: child where
  "iframe_child = foo_child\<lparr>ctx := Some IFRAME\<rparr>"

text \<open>A standalone instance constructed in the window opened directly.\<close>

definition standalone_attach :: "child \<times> world" where
  "standalone_attach = construct id 2 ''foo'' xy_props True orphan_window"

definition type_error :: js_error where
  "type_error = \<lparr>integration = False, err_name = ''TypeError'', message = ''secret is undefined'',
     stack = Some ''TypeError: secret is undefined at pay.js:12''\<rparr>"

definition integration_error :: js_error where
  "integration_error = \<lparr>integration = True, err_name = ''Error'', message = ''amount is required'',
     stack = Some ''Error: amount is required at pay.js:40''\<rparr>"

section \<open>Properties\<close>

subsection \<open>Shared facts\<close>

lemma trace_emit [simp]: "trace (emit e w) = trace w @ [e]"
  by (simp add: emit_def)

lemma trace_log [simp]: "trace (log n d w) = trace w @ [Log n d]"
  by (simp add: log_def)

lemma trace_invoke [simp]: "trace (invoke h a c w) = trace w @ [Invoke h a (props c)]"
  by (simp add: invoke_def)

lemma parentWindow_emit [simp]: "parentWindow (emit e w) = parentWindow w"
  by (simp add: emit_def)

lemma parentWindow_log [simp]: "parentWindow (log n d w) = parentWindow w"
  by (simp add: log_def)

lemma parentWindow_invoke [simp]: "parentWindow (invoke h a c w) = parentWindow w"
  by (simp add: invoke_def)

lemma new_Error_emit [simp]: "new_Error (emit e w) m = new_Error w m"
  by (simp add: new_Error_def emit_def)

lemma new_Error_log [simp]: "new_Error (log n d w) m = new_Error w m"
  by (simp add: log_def)

lemma new_Error_invoke [simp]: "new_Error (invoke h a c w) m = new_Error w m"
  by (simp add: invoke_def)

lemma new_Error_watchers [simp]: "new_Error (w\<lparr>watchers := x\<rparr>) m = new_Error w m"
  by (simp add: new_Error_def)

lemma setWindows_result_log: "fst (setWindows c (log n d w)) = fst (setWindows c w)"
  by (simp add: setWindows_def log_def emit_def new_Error_def Let_def split: sum.splits)

lemma sublist_mid: "sublist xs (a @ xs @ b)"
  unfolding sublist_def by blast

lemma trace_sendToParent:
  "trace (sendToParent n d w) = trace w @
     [Log (''send_to_parent_'' @ message_name n) None, Send (parentWindow w) n d]"
  by (simp add: sendToParent_def Let_def)

lemma parentWindow_sendToParent [simp]: "parentWindow (sendToParent n d w) = parentWindow w"
  by (simp add: sendToParent_def Let_def)

lemma trace_sendToParentComponent:
  "trace (sendToParentComponent n d w) = trace w @
     [Log (''send_to_parent_component_'' @ message_name n) None,
      Send (parentComponentWindow w) n d]"
  by (simp add: sendToParentComponent_def Let_def log_def emit_def)

lemma trace_close:
  "trace (close err c w) = trace w @
     [Log ''close_child'' None, Invoke OnClose err (props c),
      Log ''send_to_parent_CLOSE'' None, Send (parentWindow w) CLOSE NoData]"
  by (simp add: close_def Let_def trace_sendToParent)

lemma parentWindow_close [simp]: "parentWindow (close err c w) = parentWindow w"
  by (simp add: close_def Let_def)

lemma trace_parent_window_closed:
  "trace (parent_window_closed c w) = trace w @
     [Log ''parent_window_closed'' None,
      Invoke OnClose (Some (new_Error w (parent_closed_message (tag c)))) (props c)] @
     (if ctx c = Some POPUP then [WindowClose] else [])"
  by (simp add: parent_window_closed_def Let_def)

lemma parentWindow_parent_window_closed [simp]:
  "parentWindow (parent_window_closed c w) = parentWindow w"
  by (simp add: parent_window_closed_def Let_def)

lemma trace_parent_component_window_closed:
  "trace (parent_component_window_closed c w) = trace w @
     [Log ''parent_component_window_closed'' None, Log ''close_child'' None,
      Invoke OnClose (Some (new_Error w (parent_component_closed_message (tag c)))) (props c),
      Log ''send_to_parent_CLOSE'' None, Send (parentWindow w) CLOSE NoData]"
  by (simp add: parent_component_window_closed_def Let_def trace_close)

lemma parentWindow_parent_component_window_closed [simp]:
  "parentWindow (parent_component_window_closed c w) = parentWindow w"
  by (simp add: parent_component_window_closed_def Let_def)


lemma parentWindow_listener_CLOSE [simp]:
  "parentWindow (listener_CLOSE source c w) = parentWindow w"
  by (simp add: listener_CLOSE_def)

subsection \<open>Attaching to an occupied window\<close>

text \<open>
  Claim C1, as amended. In a window that already stores an instance, the resolution step
  (\<open>setWindows\<close>) of any further instance throws the duplicate-attach error and changes
  nothing, whatever the tag of that instance and whether or not the first instance ever
  finished attaching. \<open>init\<close> rethrows the error when the instance is not standalone
  and returns normally when it is; either way it only writes to the log, and the window
  keeps the instance it stored first.
\<close>

theorem second_attach_resolution_fails:
  "activeXComponent w = Some a \<Longrightarrow>
   setWindows c w = (Inl (new_Error w (duplicate_attach_message (tag c))), w) \<and>
   init r c w =
     (if standalone c then Inr ReturnedUndefined
      else Inl (new_Error w (duplicate_attach_message (tag c))),
      c,
      w\<lparr>trace := trace w @ Log ''init_child'' None #
          (if standalone c then [Log ''child_standalone'' None] else [])\<rparr>) \<and>
   activeXComponent (snd (snd (init r c w))) = Some a"
  by (simp add: init_def setWindows_def log_def emit_def new_Error_def)

theorem second_attach_resolution_fails_witness:
  "activeXComponent occupied_bar_window = Some 1 \<and>
   fst (setWindows foo_child occupied_bar_window)
     = Inl \<lparr>integration = False, err_name = ''Error'',
            message = ''[foo] Can not attach multiple components to the same window'',
            stack = None\<rparr> \<and>
   fst (init NoReply foo_child occupied_bar_window)
     = Inl \<lparr>integration = False, err_name = ''Error'',
            message = ''[foo] Can not attach multiple components to the same window'',
            stack = None\<rparr> \<and>
   trace (snd (snd (init NoReply foo_child occupied_bar_window))) = [Log ''init_child'' None] \<and>
   activeXComponent (snd (snd (init NoReply foo_child occupied_bar_window))) = Some 1"
  using second_attach_resolution_fails [of occupied_bar_window 1 foo_child NoReply]
  by (simp add: occupied_bar_window_def bar_window_def foo_window_def foo_child_def
      new_Error_def duplicate_attach_message_def no_stack_def)

text \<open>
  The claim as stated fails for a standalone instance: its \<open>init\<close> in an occupied
  window returns without an error.
\<close>

theorem standalone_second_attach_returns:
  "activeXComponent occupied_window = Some 1 \<and>
   fst (init NoReply standalone_child occupied_window) = Inr ReturnedUndefined"
  by (simp add: init_def setWindows_def log_def emit_def occupied_window_def foo_window_def
      standalone_child_def foo_child_def)

subsection \<open>Which resolution failures init suppresses\<close>

text \<open>
  Claim C2, as amended. \<open>init\<close> suppresses a failure of the window resolution exactly
  when the instance is standalone, whatever the failure is: it returns normally
  (\<open>undefined\<close>) if and only if the instance is standalone and \<open>setWindows\<close> threw,
  and it throws \<open>e\<close> if and only if the instance is not standalone and
  \<open>setWindows\<close> threw \<open>e\<close>.
\<close>

theorem init_suppresses_iff_standalone:
  "(fst (init r c w) = Inr ReturnedUndefined) = (standalone c \<and> isl (fst (setWindows c w))) \<and>
   (fst (init r c w) = Inl e) = (\<not> standalone c \<and> fst (setWindows c w) = Inl e)"
proof -
  obtain res w1 where sw: "setWindows c (log ''init_child'' None w) = (res, w1)"
    by (cases "setWindows c (log ''init_child'' None w)")
  have res: "fst (setWindows c w) = res"
    using setWindows_result_log [of c "''init_child''" None w] sw by simp
  show ?thesis
  proof (cases res)
    case (Inl err)
    then show ?thesis using sw res by (auto simp add: init_def)
  next
    case (Inr u)
    then show ?thesis using sw res
      by (auto simp add: init_def Let_def split: prod.splits)
  qed
qed

theorem init_suppresses_iff_standalone_witness:
  "standalone standalone_child \<and>
   isl (fst (setWindows standalone_child orphan_window)) \<and>
   fst (init NoReply standalone_child orphan_window) = Inr ReturnedUndefined"
proof -
  have a: "standalone standalone_child \<and> isl (fst (setWindows standalone_child orphan_window))"
    by (simp add: setWindows_def Let_def orphan_window_def standalone_child_def foo_child_def)
  have "fst (init NoReply standalone_child orphan_window) = Inr ReturnedUndefined"
    using init_suppresses_iff_standalone [of NoReply standalone_child orphan_window type_error] a
    by blast
  with a show ?thesis by simp
qed

text \<open>
  The claim as stated fails: a tag mismatch is suppressed too when the instance is
  standalone.
\<close>

theorem standalone_suppresses_tag_mismatch:
  "standalone standalone_child \<and>
   fst (setWindows standalone_child bar_window)
     = Inl \<lparr>integration = False, err_name = ''Error'',
            message = ''[foo] Parent is bar - can not attach foo'', stack = None\<rparr> \<and>
   fst (init NoReply standalone_child bar_window) = Inr ReturnedUndefined"
  by (simp add: init_def setWindows_def log_def emit_def bar_window_def foo_window_def
      standalone_child_def foo_child_def new_Error_def tag_mismatch_message_def no_stack_def)


subsection \<open>Repeated close requests\<close>


lemma parentWindow_detected_closed [simp]:
  "parentWindow (detected_closed t c w) = parentWindow w"
  by (cases t) (simp_all add: detected_closed_def)

lemma parentWindow_request [simp]: "parentWindow (request q c w) = parentWindow w"
  by (cases q) simp_all







subsection \<open>A window named for another component\<close>

text \<open>
  Claim C4, as amended. For a non-standalone instance in a window that stores no
  instance yet and has both a parent window and a parent component window, if the tag
  decoded from the window name differs from the tag of the component, then the
  resolution throws an error whose message names both tags, \<open>init\<close> rethrows it, and
  up to that point only two log lines were written: no listener is registered, no
  message is sent and no window is watched.
\<close>

theorem tag_mismatch_fails_before_messages:
  "\<not> standalone c \<Longrightarrow> activeXComponent w = None \<Longrightarrow> parentWindow w = Some p \<Longrightarrow>
   parentComponentWindow w = Some q \<Longrightarrow> parsedWindowName w = Inr found \<Longrightarrow> found \<noteq> tag c \<Longrightarrow>
   (\<exists>e w'. init r c w = (Inl e, c, w') \<and> fst (setWindows c w) = Inl e \<and>
      message e = ''['' @ tag c @ ''] Parent is '' @ found @ '' - can not attach '' @ tag c \<and>
      sublist (tag c) (message e) \<and> sublist found (message e) \<and>
      trace w' = trace w @ [Log ''init_child'' None, Log ''child_win_props'' (Some found)] \<and>
      filter is_listen (trace w') = filter is_listen (trace w) \<and>
      filter is_send (trace w') = filter is_send (trace w) \<and>
      watchers w' = watchers w)"
proof -
  assume a: "\<not> standalone c" "activeXComponent w = None" "parentWindow w = Some p"
    "parentComponentWindow w = Some q" "parsedWindowName w = Inr found" "found \<noteq> tag c"
  have s1: "sublist (tag c) (tag_mismatch_message (tag c) found)"
    using sublist_mid [of "tag c" "''[''"] by (simp add: tag_mismatch_message_def)
  have s2: "sublist found (tag_mismatch_message (tag c) found)"
    using sublist_mid [of found "''['' @ tag c @ ''] Parent is ''" "'' - can not attach '' @ tag c"]
    by (simp add: tag_mismatch_message_def)
  have m: "message (new_Error w (tag_mismatch_message (tag c) found)) =
      ''['' @ tag c @ ''] Parent is '' @ found @ '' - can not attach '' @ tag c"
    by (simp add: new_Error_def tag_mismatch_message_def)
  show ?thesis
    apply (rule exI [of _ "new_Error w (tag_mismatch_message (tag c) found)"])
    using a s1 s2 m
    by (simp add: init_def setWindows_def Let_def log_def emit_def new_Error_def)
qed

theorem tag_mismatch_fails_before_messages_witness:
  "\<not> standalone foo_child \<and> activeXComponent bar_window = None \<and>
   parsedWindowName bar_window = Inr ''bar'' \<and>
   fst (init NoReply foo_child bar_window) =
      Inl \<lparr>integration = False, err_name = ''Error'',
            message = ''[foo] Parent is bar - can not attach foo'', stack = None\<rparr> \<and>
   trace (snd (snd (init NoReply foo_child bar_window))) =
      [Log ''init_child'' None, Log ''child_win_props'' (Some ''bar'')]"
proof -
  have h: "\<not> standalone foo_child" "activeXComponent bar_window = None"
    "parentWindow bar_window = Some 1" "parentComponentWindow bar_window = Some 1"
    "parsedWindowName bar_window = Inr ''bar''" "''bar'' \<noteq> tag foo_child"
    by (simp_all add: foo_child_def bar_window_def foo_window_def)
  from tag_mismatch_fails_before_messages [OF h, of NoReply] obtain e w' where
    r: "init NoReply foo_child bar_window = (Inl e, foo_child, w')"
    and s: "fst (setWindows foo_child bar_window) = Inl e"
    and t: "trace w' = trace bar_window @
              [Log ''init_child'' None, Log ''child_win_props'' (Some ''bar'')]"
    by blast
  have "fst (setWindows foo_child bar_window) =
      Inl \<lparr>integration = False, err_name = ''Error'',
            message = ''[foo] Parent is bar - can not attach foo'', stack = None\<rparr>"
    by (simp add: setWindows_def Let_def log_def emit_def bar_window_def foo_window_def
      foo_child_def new_Error_def tag_mismatch_message_def no_stack_def)
  with s have e: "e = \<lparr>integration = False, err_name = ''Error'',
            message = ''[foo] Parent is bar - can not attach foo'', stack = None\<rparr>"
    by simp
  have "trace bar_window = []" by (simp add: bar_window_def foo_window_def)
  with r t e h show ?thesis by simp
qed

text \<open>
  The claim as stated fails in a window that already stores an instance: the error
  thrown there is the duplicate-attach error, whose message does not name the decoded
  tag.
\<close>

theorem tag_mismatch_in_occupied_window:
  "\<not> standalone foo_child \<and> tag foo_child = ''foo'' \<and>
   parsedWindowName occupied_bar_window = Inr ''bar'' \<and>
   fst (init NoReply foo_child occupied_bar_window) =
      Inl \<lparr>integration = False, err_name = ''Error'',
            message = ''[foo] Can not attach multiple components to the same window'',
            stack = None\<rparr> \<and>
   \<not> sublist ''bar'' ''[foo] Can not attach multiple components to the same window''"
  by (simp add: init_def setWindows_def log_def emit_def occupied_bar_window_def bar_window_def
      foo_window_def foo_child_def new_Error_def duplicate_attach_message_def no_stack_def
      sublist_Cons_right prefix_Cons)

subsection \<open>Props sent by the parent\<close>

lemma map_of_assign: "map_of (assign k v ps) = (map_of ps)(k \<mapsto> v)"
  by (induction ps) (auto simp add: fun_eq_iff)

lemma keys_assign:
  "map fst (assign k v ps) = (if k \<in> fst ` set ps then map fst ps else map fst ps @ [k])"
  by (induction ps) auto

lemma keyset_assign: "fst ` set (assign k v ps) = insert k (fst ` set ps)"
  by (induction ps) auto

lemma others_assign:
  "k \<in> K \<Longrightarrow> filter (\<lambda>p. fst p \<notin> K) (assign k v ps) = filter (\<lambda>p. fst p \<notin> K) ps"
  by (induction ps) auto

lemma map_of_extend:
  "distinct (map fst src) \<Longrightarrow>
   map_of (extend obj src) k = (case map_of src k of Some v \<Rightarrow> Some v | None \<Rightarrow> map_of obj k)"
proof (induction src arbitrary: obj)
  case Nil
  show ?case by simp
next
  case (Cons p src)
  from Cons.prems have d: "distinct (map fst src)" and n: "fst p \<notin> fst ` set src" by simp_all
  from n have none: "map_of src (fst p) = None" by (simp add: map_of_eq_None_iff)
  show ?case
    using Cons.IH [OF d, of "assign (fst p) (snd p) obj"] none
    by (cases p) (auto simp add: map_of_assign split: option.splits)
qed

lemma keys_extend:
  "distinct (map fst src) \<Longrightarrow>
   map fst (extend obj src) = map fst obj @ filter (\<lambda>k. k \<notin> fst ` set obj) (map fst src)"
proof (induction src arbitrary: obj)
  case Nil
  show ?case by simp
next
  case (Cons p src)
  from Cons.prems have d: "distinct (map fst src)" and n: "fst p \<notin> fst ` set src" by simp_all
  have f: "filter (\<lambda>k. k \<noteq> fst p \<and> k \<notin> fst ` set obj) (map fst src) =
           filter (\<lambda>k. k \<notin> fst ` set obj) (map fst src)"
  proof (rule filter_cong [OF refl])
    fix k assume "k \<in> set (map fst src)"
    with n have "k \<noteq> fst p" by (auto simp add: image_iff)
    then show "(k \<noteq> fst p \<and> k \<notin> fst ` set obj) = (k \<notin> fst ` set obj)" by simp
  qed
  have ih: "map fst (extend (assign (fst p) (snd p) obj) src) =
      map fst (assign (fst p) (snd p) obj) @
      filter (\<lambda>k. k \<noteq> fst p \<and> k \<notin> fst ` set obj) (map fst src)"
    using Cons.IH [OF d, of "assign (fst p) (snd p) obj"] by (simp add: keyset_assign)
  show ?case
  proof (cases "fst p \<in> fst ` set obj")
    case True
    with ih f show ?thesis by (simp add: keys_assign)
  next
    case False
    with ih f show ?thesis by (simp add: keys_assign)
  qed
qed

lemma others_extend:
  "fst ` set src \<subseteq> K \<Longrightarrow>
   filter (\<lambda>p. fst p \<notin> K) (extend obj src) = filter (\<lambda>p. fst p \<notin> K) obj"
proof (induction src arbitrary: obj)
  case Nil
  show ?case by simp
next
  case (Cons p src)
  then show ?case by (simp add: others_assign)
qed

text \<open>
  Claim C5. Handling a PROPS message whose bag has each key once merges the bag into
  the props of the instance: a key of the message reads as the message's value, every
  other key reads as before; the keys keep their order, with the new keys of the
  message after them in the message's order; the entries whose keys the message does
  not mention are the same entries in the same order. The onProps handler is called
  exactly once, after the merge (it finds the merged props on the instance), and
  nothing else changes.
\<close>

theorem props_message_merges:
  "distinct (map fst ps) \<Longrightarrow>
   (\<forall>k. map_of (props (fst (listener_PROPS ps c w))) k =
      (case map_of ps k of Some v \<Rightarrow> Some v | None \<Rightarrow> map_of (props c) k)) \<and>
   map fst (props (fst (listener_PROPS ps c w))) =
      map fst (props c) @ filter (\<lambda>k. k \<notin> fst ` set (props c)) (map fst ps) \<and>
   filter (\<lambda>p. fst p \<notin> fst ` set ps) (props (fst (listener_PROPS ps c w))) =
      filter (\<lambda>p. fst p \<notin> fst ` set ps) (props c) \<and>
   listener_PROPS ps c w =
     (c\<lparr>props := props (fst (listener_PROPS ps c w))\<rparr>,
      w\<lparr>trace := trace w @ [Invoke OnProps None (props (fst (listener_PROPS ps c w)))]\<rparr>)"
  by (simp add: listener_PROPS_def Let_def map_of_extend keys_extend others_extend
      invoke_def emit_def)

theorem props_message_merges_witness:
  "distinct (map fst [(''x'', JNum 2)]) \<and>
   listener_PROPS [(''x'', JNum 2)] foo_child foo_window =
     (foo_child\<lparr>props := [(''x'', JNum 2), (''y'', JNum 1)]\<rparr>,
      foo_window\<lparr>trace := [Invoke OnProps None [(''x'', JNum 2), (''y'', JNum 1)]]\<rparr>) \<and>
   map fst (props (fst (listener_PROPS [(''x'', JNum 2)] foo_child foo_window))) = [''x'', ''y''] \<and>
   map_of (props (fst (listener_PROPS [(''x'', JNum 2)] foo_child foo_window))) ''x'' = Some (JNum 2) \<and>
   map_of (props (fst (listener_PROPS [(''x'', JNum 2)] foo_child foo_window))) ''y'' = Some (JNum 1)"
proof -
  have d: "distinct (map fst [(''x'', JNum 2)])" by simp
  have v: "listener_PROPS [(''x'', JNum 2)] foo_child foo_window =
     (foo_child\<lparr>props := [(''x'', JNum 2), (''y'', JNum 1)]\<rparr>,
      foo_window\<lparr>trace := [Invoke OnProps None [(''x'', JNum 2), (''y'', JNum 1)]]\<rparr>)"
    by (simp add: listener_PROPS_def Let_def invoke_def emit_def foo_child_def xy_props_def
        foo_window_def)
  have p: "props foo_child = xy_props" by (simp add: foo_child_def)
  show ?thesis
    using props_message_merges [OF d, of foo_child foo_window] d v
    by (simp add: p xy_props_def)
qed

subsection \<open>Reporting an error to the parent component\<close>

lemma sublist_message_toString: "sublist (message e) (toString e)"
  using sublist_mid [of "message e" "err_name e @ '': ''" "[]"]
  by (simp add: toString_def)

lemma sublist_message_render: "sublist (message e) (render e)"
  using sublist_mid [of "message e" "[]"]
  by (auto simp add: render_def sublist_message_toString split: option.splits)

text \<open>
  Claim C6. \<open>error\<close> sends exactly one message, an ERROR message to the parent
  component window. For an integration error its payload is the rendering of that very
  error: it contains the message, and with a stack it is the message, a line break and
  the stack, verbatim. For any other error the payload is the rendering of a new error
  made from the fixed lifecycle message of the component, so it contains that message
  and is the same whatever the original error was; the original error reaches only the
  local log and the console.
\<close>

theorem error_report_sanitises:
  "trace (error e c w) = trace w @
     Log ''error'' (Some (stack_or_string e)) #
     (if integration e then [] else [ConsoleError (stack e)]) @
     [Log ''send_to_parent_component_ERROR'' None,
      Send (parentComponentWindow w) ERROR
        (ErrorData (if integration e then render e
                    else render (new_Error w (lifecycle_error_message (tag c)))))] \<and>
   sublist (message e) (render e) \<and>
   (\<forall>st. stack e = Some st \<and> st \<noteq> [] \<longrightarrow> render e = message e @ [CHR 0x0A] @ st) \<and>
   sublist (lifecycle_error_message (tag c))
     (render (new_Error w (lifecycle_error_message (tag c)))) \<and>
   (\<not> integration e \<and> \<not> integration e' \<longrightarrow>
      filter is_send (trace (error e c w)) = filter is_send (trace (error e' c w)))"
proof -
  have tr: "\<And>e. trace (error e c w) = trace w @
     Log ''error'' (Some (stack_or_string e)) #
     (if integration e then [] else [ConsoleError (stack e)]) @
     [Log ''send_to_parent_component_ERROR'' None,
      Send (parentComponentWindow w) ERROR
        (ErrorData (if integration e then render e
                    else render (new_Error w (lifecycle_error_message (tag c)))))]"
    by (simp add: error_def Let_def trace_sendToParentComponent log_def emit_def new_Error_def)
  have g: "sublist (lifecycle_error_message (tag c))
      (render (new_Error w (lifecycle_error_message (tag c))))"
    using sublist_message_render [of "new_Error w (lifecycle_error_message (tag c))"]
    by (simp add: new_Error_def)
  have v: "\<forall>st. stack e = Some st \<and> st \<noteq> [] \<longrightarrow> render e = message e @ [CHR 0x0A] @ st"
    by (simp add: render_def)
  have i: "\<not> integration e \<and> \<not> integration e' \<longrightarrow>
      filter is_send (trace (error e c w)) = filter is_send (trace (error e' c w))"
    by (simp add: tr)
  show ?thesis using tr [of e] g v i sublist_message_render [of e] by blast
qed

theorem error_report_sanitises_witness:
  "integration integration_error \<and> \<not> integration type_error \<and>
   trace (error integration_error foo_child v8_window) =
     [Log ''error'' (Some ''Error: amount is required at pay.js:40''),
      Log ''send_to_parent_component_ERROR'' None,
      Send (Some 1) ERROR (ErrorData
        (''amount is required'' @ [CHR 0x0A] @ ''Error: amount is required at pay.js:40''))] \<and>
   trace (error type_error foo_child v8_window) =
     [Log ''error'' (Some ''TypeError: secret is undefined at pay.js:12''),
      ConsoleError (Some ''TypeError: secret is undefined at pay.js:12''),
      Log ''send_to_parent_component_ERROR'' None,
      Send (Some 1) ERROR (ErrorData
        (''[foo] Child lifecycle method threw an error'' @ [CHR 0x0A] @
         ''Error: [foo] Child lifecycle method threw an error'' @ [CHR 0x0A] @
         ''    at child.js:337''))]"
proof -
  have w: "trace v8_window = []" "parentComponentWindow v8_window = Some 1"
    "errorStack v8_window = engine_stack"
    by (simp_all add: v8_window_def foo_window_def)
  have c: "tag foo_child = ''foo''" by (simp add: foo_child_def)
  show ?thesis
    using error_report_sanitises [of integration_error foo_child v8_window type_error]
      error_report_sanitises [of type_error foo_child v8_window type_error]
    by (simp add: w c integration_error_def type_error_def render_def stack_or_string_def
        new_Error_def lifecycle_error_message_def engine_stack_def)
qed

subsection \<open>A standalone instance without a parent component\<close>

text \<open>
  Claim C7. For a standalone instance in a window with no parent component window,
  \<open>init\<close> returns normally whatever else the window holds and whatever reply a
  parent would have given: it writes two log lines and nothing more, so it registers
  no listener, sends no message and watches no window, and the instance is unchanged,
  its props being those it was constructed with.
\<close>

theorem standalone_init_is_silent:
  "standalone c \<Longrightarrow> parentComponentWindow w = None \<Longrightarrow>
   fst (init r c w) = Inr ReturnedUndefined \<and>
   fst (snd (init r c w)) = c \<and>
   trace (snd (snd (init r c w))) =
     trace w @ [Log ''init_child'' None, Log ''child_standalone'' None] \<and>
   filter is_listen (trace (snd (snd (init r c w)))) = filter is_listen (trace w) \<and>
   filter is_send (trace (snd (snd (init r c w)))) = filter is_send (trace w) \<and>
   watchers (snd (snd (init r c w))) = watchers w"
  by (simp add: init_def setWindows_def Let_def log_def emit_def)

theorem standalone_init_is_silent_witness:
  "standalone (fst standalone_attach) \<and>
   parentComponentWindow (snd standalone_attach) = None \<and>
   fst (init (Reply POPUP [(''x'', JNum 2)]) (fst standalone_attach) (snd standalone_attach)) =
     Inr ReturnedUndefined \<and>
   props (fst (snd (init (Reply POPUP [(''x'', JNum 2)])
       (fst standalone_attach) (snd standalone_attach)))) =
     [(''x'', JNum 1), (''y'', JNum 1)] \<and>
   trace (snd (snd (init (Reply POPUP [(''x'', JNum 2)])
       (fst standalone_attach) (snd standalone_attach)))) =
     [Log ''construct_child'' None, Log ''init_child'' None, Log ''child_standalone'' None]"
proof -
  have h: "standalone (fst standalone_attach)"
    "parentComponentWindow (snd standalone_attach) = None"
    by (simp_all add: standalone_attach_def construct_def log_def emit_def orphan_window_def)
  have p: "props (fst standalone_attach) = [(''x'', JNum 1), (''y'', JNum 1)]"
    "trace (snd standalone_attach) = [Log ''construct_child'' None]"
    by (simp_all add: standalone_attach_def construct_def xy_props_def orphan_window_def)
  show ?thesis
    using standalone_init_is_silent [OF h, of "Reply POPUP [(''x'', JNum 2)]"] h
    by (simp add: p)
qed

subsection \<open>The parent window closes\<close>

text \<open>
  Claim C8. When the parent window is found closed, the callback writes a log line and
  calls the onClose handler with an error whose message says that the parent window
  was closed; after that it closes the local window if and only if the context of the
  instance is popup. A registered watch runs exactly this callback and is then spent.
\<close>

theorem parent_window_closure:
  "trace (parent_window_closed c w) = trace w @
     [Log ''parent_window_closed'' None,
      Invoke OnClose (Some (new_Error w (parent_closed_message (tag c)))) (props c)] @
     (if ctx c = Some POPUP then [WindowClose] else []) \<and>
   message (new_Error w (parent_closed_message (tag c))) =
     ''['' @ tag c @ ''] parent window was closed'' \<and>
   (WindowClose \<in> set (drop (length (trace w)) (trace (parent_window_closed c w)))) =
     (ctx c = Some POPUP) \<and>
   (ParentWindowWatch \<in> set (watchers w) \<longrightarrow>
      trace (detected_closed ParentWindowWatch c w) = trace (parent_window_closed c w) \<and>
      ParentWindowWatch \<notin> set (watchers (detected_closed ParentWindowWatch c w)))"
  by (simp add: trace_parent_window_closed detected_closed_def new_Error_def
      parent_closed_message_def)
     (simp add: parent_window_closed_def Let_def log_def invoke_def emit_def)

theorem parent_window_closure_witness:
  "snd (setWindows popup_child foo_window) = watched_window \<and>
   ParentWindowWatch \<in> set (watchers watched_window) \<and>
   trace (detected_closed ParentWindowWatch popup_child watched_window) =
     [Log ''child_win_props'' (Some ''foo''), Log ''parent_window_closed'' None,
      Invoke OnClose (Some \<lparr>integration = False, err_name = ''Error'',
         message = ''[foo] parent window was closed'', stack = None\<rparr>) xy_props,
      WindowClose] \<and>
   trace (detected_closed ParentWindowWatch iframe_child watched_window) =
     [Log ''child_win_props'' (Some ''foo''), Log ''parent_window_closed'' None,
      Invoke OnClose (Some \<lparr>integration = False, err_name = ''Error'',
         message = ''[foo] parent window was closed'', stack = None\<rparr>) xy_props]"
proof -
  have p: "snd (setWindows popup_child foo_window) = watched_window"
    by (simp add: setWindows_def Let_def watchForClose_def log_def emit_def popup_child_def
        foo_child_def foo_window_def watched_window_def)
  have w: "ParentWindowWatch \<in> set (watchers watched_window)"
    "trace watched_window = [Log ''child_win_props'' (Some ''foo'')]"
    "errorStack watched_window = no_stack"
    by (simp_all add: watched_window_def foo_window_def)
  have c: "tag popup_child = ''foo''" "props popup_child = xy_props"
    "ctx popup_child = Some POPUP"
    "tag iframe_child = ''foo''" "props iframe_child = xy_props"
    "ctx iframe_child = Some IFRAME"
    by (simp_all add: popup_child_def iframe_child_def foo_child_def)
  show ?thesis
    using parent_window_closure [of popup_child watched_window]
      parent_window_closure [of iframe_child watched_window] p
    by (simp add: w c new_Error_def parent_closed_message_def no_stack_def)
qed

subsection \<open>The parent component window closes\<close>

text \<open>
  Claim C9. \<open>watchForClose\<close> always watches the parent window, and watches the
  parent component window exactly when there is one and it is not the parent window.
  When that window is found closed, the callback writes a log line and performs
  \<open>close\<close>: the onClose handler is called with an error saying that the parent
  component window was closed, and then a CLOSE message is sent to the parent window.
  The context of the instance plays no part in it.
\<close>

theorem parent_component_window_closure:
  "watchers (watchForClose c w) = watchers w @ ParentWindowWatch #
     (if parentComponentWindow w \<noteq> None \<and> parentComponentWindow w \<noteq> parentWindow w
      then [ParentComponentWindowWatch] else []) \<and>
   trace (parent_component_window_closed c w) = trace w @
     [Log ''parent_component_window_closed'' None, Log ''close_child'' None,
      Invoke OnClose (Some (new_Error w (parent_component_closed_message (tag c)))) (props c),
      Log ''send_to_parent_CLOSE'' None, Send (parentWindow w) CLOSE NoData] \<and>
   trace (parent_component_window_closed (c\<lparr>ctx := x\<rparr>) w) =
     trace (parent_component_window_closed c w) \<and>
   (ParentComponentWindowWatch \<in> set (watchers w) \<longrightarrow>
      trace (detected_closed ParentComponentWindowWatch c w) =
      trace (parent_component_window_closed c w))"
  by (simp add: trace_parent_component_window_closed detected_closed_def watchForClose_def
      Let_def)

theorem parent_component_window_closure_witness:
  "snd (setWindows iframe_child foo_window) = watched_window \<and>
   snd (setWindows iframe_child delegated_window) = watched_delegated_window \<and>
   ParentComponentWindowWatch \<in> set (watchers watched_delegated_window) \<and>
   trace (detected_closed ParentComponentWindowWatch iframe_child watched_delegated_window) =
     [Log ''child_win_props'' (Some ''foo''), Log ''parent_component_window_closed'' None,
      Log ''close_child'' None,
      Invoke OnClose (Some \<lparr>integration = False, err_name = ''Error'',
         message = ''[foo] parent component window was closed'', stack = None\<rparr>) xy_props,
      Log ''send_to_parent_CLOSE'' None, Send (Some 1) CLOSE NoData]"
proof -
  let ?w = "foo_window\<lparr>activeXComponent := Some 2,
              trace := [Log ''child_win_props'' (Some ''foo'')]\<rparr>"
  let ?d = "delegated_window\<lparr>activeXComponent := Some 2,
              trace := [Log ''child_win_props'' (Some ''foo'')]\<rparr>"
  have a: "snd (setWindows iframe_child foo_window) = watchForClose iframe_child ?w"
    by (simp add: setWindows_def Let_def log_def emit_def iframe_child_def foo_child_def
        foo_window_def)
  have b: "snd (setWindows iframe_child delegated_window) = watchForClose iframe_child ?d"
    by (simp add: setWindows_def Let_def log_def emit_def iframe_child_def foo_child_def
        delegated_window_def foo_window_def)
  have fa: "watchForClose iframe_child ?w =
      ?w\<lparr>watchers := watchers (watchForClose iframe_child ?w)\<rparr>"
    and fb: "watchForClose iframe_child ?d =
      ?d\<lparr>watchers := watchers (watchForClose iframe_child ?d)\<rparr>"
    by (simp_all add: watchForClose_def Let_def)
  have wa: "watchers (watchForClose iframe_child ?w) = [ParentWindowWatch]"
    using parent_component_window_closure [of iframe_child ?w] by (simp add: foo_window_def)
  have wb: "watchers (watchForClose iframe_child ?d) =
      [ParentWindowWatch, ParentComponentWindowWatch]"
    using parent_component_window_closure [of iframe_child ?d]
    by (simp add: delegated_window_def foo_window_def)
  have a': "snd (setWindows iframe_child foo_window) = watched_window"
    using a fa wa by (simp add: watched_window_def foo_window_def)
  have b': "snd (setWindows iframe_child delegated_window) = watched_delegated_window"
    using b fb wb by (simp add: watched_delegated_window_def delegated_window_def foo_window_def)
  have w: "ParentComponentWindowWatch \<in> set (watchers watched_delegated_window)"
    "trace watched_delegated_window = [Log ''child_win_props'' (Some ''foo'')]"
    "errorStack watched_delegated_window = no_stack"
    "parentWindow watched_delegated_window = Some 1"
    by (simp_all add: watched_delegated_window_def delegated_window_def foo_window_def)
  have c: "tag iframe_child = ''foo''" "props iframe_child = xy_props"
    by (simp_all add: iframe_child_def foo_child_def)
  show ?thesis
    using parent_component_window_closure [of iframe_child watched_delegated_window] a' b'
    by (simp add: w c new_Error_def parent_component_closed_message_def no_stack_def)
qed

subsection \<open>The mark left by a failed resolution\<close>

text \<open>
  Claim C10, as amended. \<open>setWindows\<close> stores the instance in the window before it
  checks the parent references and the decoded tag, and a later check that throws
  does not take it out. So when \<open>setWindows\<close> fails in a window that stored no
  instance (no parent window, no parent component window, a window name that does not
  decode, or a tag mismatch), the window stores the failed instance although nothing
  is watched, and the resolution step of every later instance throws the
  duplicate-attach error; \<open>init\<close> of that later instance rethrows it unless the
  instance is standalone, in which case it returns normally.
\<close>

theorem failed_resolution_keeps_mark:
  "activeXComponent w = None \<Longrightarrow> fst (setWindows c w) = Inl e \<Longrightarrow>
   e = (if parentWindow w = None then new_Error w (no_parent_message (tag c))
        else if parentComponentWindow w = None
        then new_Error w (no_parent_component_message (tag c))
        else case parsedWindowName w of
               Inl thrown \<Rightarrow> thrown
             | Inr found \<Rightarrow> new_Error w (tag_mismatch_message (tag c) found)) \<and>
   activeXComponent (snd (setWindows c w)) = Some (ident c) \<and>
   watchers (snd (setWindows c w)) = watchers w \<and>
   setWindows c2 (snd (setWindows c w)) =
     (Inl (new_Error w (duplicate_attach_message (tag c2))), snd (setWindows c w)) \<and>
   fst (init r c2 (snd (setWindows c w))) =
     (if standalone c2 then Inr ReturnedUndefined
      else Inl (new_Error w (duplicate_attach_message (tag c2))))"
  by (auto simp add: setWindows_def init_def Let_def log_def emit_def new_Error_def
      split: if_splits sum.splits)

theorem failed_resolution_keeps_mark_witness:
  "activeXComponent bar_window = None \<and>
   fst (setWindows foo_child bar_window) =
     Inl \<lparr>integration = False, err_name = ''Error'',
          message = ''[foo] Parent is bar - can not attach foo'', stack = None\<rparr> \<and>
   activeXComponent (snd (setWindows foo_child bar_window)) = Some 2 \<and>
   watchers (snd (setWindows foo_child bar_window)) = [] \<and>
   fst (setWindows foo_child (snd (setWindows foo_child bar_window))) =
     Inl \<lparr>integration = False, err_name = ''Error'',
          message = ''[foo] Can not attach multiple components to the same window'',
          stack = None\<rparr>"
proof -
  have h1: "activeXComponent bar_window = None"
    by (simp add: bar_window_def foo_window_def)
  have h2: "fst (setWindows foo_child bar_window) =
     Inl \<lparr>integration = False, err_name = ''Error'',
          message = ''[foo] Parent is bar - can not attach foo'', stack = None\<rparr>"
    by (simp add: setWindows_def Let_def log_def emit_def bar_window_def foo_window_def
        foo_child_def new_Error_def tag_mismatch_message_def no_stack_def)
  have s: "errorStack bar_window = no_stack" "watchers bar_window = []"
    by (simp_all add: bar_window_def foo_window_def)
  show ?thesis
    using failed_resolution_keeps_mark [OF h1 h2, of foo_child NoReply] h1 h2
    by (simp add: s new_Error_def duplicate_attach_message_def no_stack_def foo_child_def)
qed

text \<open>
  The claim as stated fails for a later standalone instance: after a failed attach in
  a window without a parent, its \<open>init\<close> returns without an error.
\<close>

theorem standalone_attach_after_failed_resolution:
  "fst (init NoReply foo_child orphan_window) =
     Inl \<lparr>integration = False, err_name = ''Error'',
          message = ''[foo] Can not find parent window'', stack = None\<rparr> \<and>
   activeXComponent (snd (snd (init NoReply foo_child orphan_window))) = Some 2 \<and>
   fst (init NoReply standalone_child (snd (snd (init NoReply foo_child orphan_window)))) =
     Inr ReturnedUndefined"
  by (simp add: init_def setWindows_def Let_def log_def emit_def orphan_window_def
      foo_child_def standalone_child_def new_Error_def no_parent_message_def no_stack_def)

end
